theory Spec2Isabelle
  imports Complex_Main
begin

section \<open>Python values\<close>

text \<open>
  Prices, fractions and balances are Python floats in the source; they are modelled as
  real numbers, so rounding, infinities and NaN are outside the model (the one infinity
  the source writes down, the initial \<open>lowest_price\<close> of a LONG position, is modelled
  explicitly below). A leverage is a Python \<open>int\<close>; it is a natural number here, since
  for a negative leverage \<open>leverage ** 0.5\<close> is a complex number in Python.
  Every exception the source can raise is a value of type \<open>error\<close>, and a function
  that can raise returns \<open>error + 'a\<close>.
\<close>

datatype error =
    ZeroDivisionError
  | KeyError string
  | IndexError
  | TypeError
  | Raised string  \<comment> \<open>an exception raised by an external collaborator\<close>

text \<open>\<open>str.upper\<close> on ASCII text, which is all the comparisons with BUY and SELL need.\<close>

definition upper_char :: "char \<Rightarrow> char" where
  "upper_char c =
     (case map_of (zip ''abcdefghijklmnopqrstuvwxyz'' ''ABCDEFGHIJKLMNOPQRSTUVWXYZ'') c of
        None \<Rightarrow> c
      | Some u \<Rightarrow> u)"

definition upper :: "string \<Rightarrow> string" where
  "upper s = map upper_char s"

text \<open>Sequencing of statements that may raise: the first exception ends the block.\<close>

definition then_do :: "error + 'a \<Rightarrow> ('a \<Rightarrow> error + 'b) \<Rightarrow> error + 'b" where
  "then_do m f = (case m of Inl e \<Rightarrow> Inl e | Inr x \<Rightarrow> f x)"

section \<open>risk\_management.py\<close>

subsection \<open>Leverage-adjusted stop and risk-reward take-profit\<close>

definition calculate_leveraged_stop_loss :: "real \<Rightarrow> nat \<Rightarrow> real \<Rightarrow> string \<Rightarrow> error + real" where
  "calculate_leveraged_stop_loss entry_price leverage base_stop_loss_pct side =
     (if sqrt (real leverage) = 0 then Inl ZeroDivisionError
      else
        let adjusted_stop_loss_pct = base_stop_loss_pct / sqrt (real leverage) in
        Inr (if upper side = ''BUY'' then entry_price * (1 - adjusted_stop_loss_pct)
             else entry_price * (1 + adjusted_stop_loss_pct)))"

definition calculate_dynamic_take_profit :: "real \<Rightarrow> real \<Rightarrow> real \<Rightarrow> string \<Rightarrow> real" where
  "calculate_dynamic_take_profit entry_price stop_loss min_risk_reward side =
     (if upper side = ''BUY'' then
        let risk = entry_price - stop_loss in entry_price + (risk * min_risk_reward)
      else
        let risk = stop_loss - entry_price in entry_price - (risk * min_risk_reward))"

subsection \<open>The price frame and the indicator module\<close>



datatype confidence = High | MediumHigh | Medium | Low | OtherConfidence




subsection \<open>advanced\_smc\_stop\_loss\<close>

record stop_result =
  stop_loss :: real
  take_profit :: real
  method_name :: string  \<comment> \<open>the key \<open>method\<close>\<close>
  risk_reward_ratio :: real
  base_stop :: "real option"
  stop_loss_pct :: "real option"
  trend :: "string option"
  trend_confidence :: "confidence option"
  error_text :: "error option"






subsection \<open>calculate\_trailing\_stop\_params\<close>

text \<open>
  The dictionary \<open>market_conditions\<close> is read at the key \<open>environment\<close> only;
  \<open>None\<close> stands for a dictionary without it.
\<close>

record trailing_params =
  activation_pct :: real
  callback_pct :: real
  tp_quality_score :: real
  tp_trend :: string

definition calculate_trailing_stop_params :: "real \<Rightarrow> string \<Rightarrow> string option \<Rightarrow> trailing_params" where
  "calculate_trailing_stop_params quality_score tr environment =
     (let activation0 = (if quality_score \<ge> 8.0 then 2.0
                         else if quality_score \<ge> 6.0 then 3.0 else 4.0);
          callback0 = (if quality_score \<ge> 8.0 then 1.0
                       else if quality_score \<ge> 6.0 then 1.5 else 2.0);
          (activation1, callback1) =
            (if tr = ''UP'' \<or> tr = ''DOWN'' then (activation0, callback0 * 0.8)
             else (activation0 * 1.2, callback0 * 1.2));
          (activation2, callback2) =
            (case environment of
               None \<Rightarrow> (activation1, callback1)
             | Some env \<Rightarrow>
                 if env = ''trending'' then (activation1, callback1 * 0.8)
                 else if env = ''ranging'' then (activation1 * 1.3, callback1 * 1.5)
                 else if env = ''breakout'' then (activation1 * 0.7, callback1 * 1.2)
                 else if env = ''extreme_volatility'' then (activation1 * 1.5, callback1 * 2.0)
                 else (activation1, callback1))
      in \<lparr>activation_pct = max 1.0 (min 10.0 activation2),
          callback_pct = max 0.5 (min 5.0 callback2),
          tp_quality_score = quality_score,
          tp_trend = tr\<rparr>)"

subsection \<open>calculate\_position\_size\<close>

record position_result =
  position_size :: real
  position_value :: real
  risk_amount :: real
  risk_percent :: real
  unit_risk :: real
  pr_leverage :: nat

definition unit_risk_of :: "real \<Rightarrow> real \<Rightarrow> real" where
  "unit_risk_of entry_price stop = \<bar>entry_price - stop\<bar>"

definition max_risk_amount_of :: "real \<Rightarrow> real \<Rightarrow> real" where
  "max_risk_amount_of account_balance max_risk_percent =
     account_balance * (max_risk_percent / 100)"

text \<open>
  Each division of the source raises \<open>ZeroDivisionError\<close> on a zero divisor; the
  function has no handler, so the exception reaches the caller.
\<close>

definition calculate_position_size :: "real \<Rightarrow> real \<Rightarrow> real \<Rightarrow> real \<Rightarrow> nat \<Rightarrow> error + position_result" where
  "calculate_position_size account_balance entry_price stop max_risk_percent leverage =
     (let ur = unit_risk_of entry_price stop;
          max_risk_amount = max_risk_amount_of account_balance max_risk_percent
      in
      if ur = 0 then Inl ZeroDivisionError
      else
        let size0 = max_risk_amount / ur;
            leveraged_position_size = size0 * real leverage;
            pv = leveraged_position_size * entry_price
        in
        if entry_price = 0 \<or> leverage = 0 then Inl ZeroDivisionError
        else
          let actual_risk_amount = ur * (pv / entry_price / real leverage) in
          if account_balance = 0 then Inl ZeroDivisionError
          else
            Inr \<lparr>position_size = leveraged_position_size,
                 position_value = pv,
                 risk_amount = actual_risk_amount,
                 risk_percent = (actual_risk_amount / account_balance) * 100,
                 unit_risk = ur,
                 pr_leverage = leverage\<rparr>)"

subsection \<open>adaptive\_risk\_management\<close>

text \<open>
  The risk levels and the reasons attached to a recommendation are Chinese strings in the
  source; they are enumerated here. A frame that is \<open>None\<close> makes the first
  statement, \<open>df['close']\<close>, raise \<open>TypeError\<close>.
\<close>

datatype risk_level = RiskLow | RiskMedium | RiskHigh

datatype recommendation = AVOID | REDUCE_LEVERAGE | INCREASE_SIZE | PROCEED

datatype recommendation_reason =
    RiskHighQualityLow
  | LeverageHighQualityLow
  | PositionValueTooSmall
  | ParametersReasonable
  | AnalysisFailed

record risk_decision =
  rd_entry_price :: real
  rd_stop_loss :: real
  rd_take_profit :: real
  rd_position_size :: real
  rd_position_value :: real
  rd_max_risk_percent :: real
  rd_actual_risk_percent :: real
  rd_risk_level :: risk_level
  rd_leverage :: nat
  rd_risk_reward_ratio :: real
  rd_trailing_stop :: trailing_params
  rd_quality_score :: real
  rd_trend :: string
  rd_trend_confidence :: confidence
  rd_vortex_adjustment :: real
  rd_recommendation :: recommendation
  rd_recommendation_reason :: recommendation_reason

text \<open>
  What the function returns: the full dictionary, or after an exception the dictionary
  holding the error, the recommendation and its reason.
\<close>

datatype risk_report =
    Report risk_decision
  | Failed error recommendation recommendation_reason

fun recommendation_of :: "risk_report \<Rightarrow> recommendation" where
  "recommendation_of (Report d) = rd_recommendation d"
| "recommendation_of (Failed e r m) = r"


text \<open>
  The statements after the position size is known: the floor on the notional value, the
  trailing parameters, the risk level, the result dictionary and the recommendation.
  When the floor applies, \<open>current_price\<close> is not zero, since
  \<open>calculate_position_size\<close> has returned.
\<close>

definition assess :: "real \<Rightarrow> nat \<Rightarrow> real \<Rightarrow> string \<Rightarrow> confidence \<Rightarrow> real \<Rightarrow> real \<Rightarrow> stop_result \<Rightarrow> position_result \<Rightarrow> risk_decision" where
  "assess quality_score leverage current_price tr conf vortex_adjustment max_risk_percent
      stop_loss_result position_result0 =
     (let min_position_value = 50.0;
          position_result =
            (if position_value position_result0 < min_position_value
             then position_result0\<lparr>position_size := min_position_value / current_price,
                                    position_value := min_position_value\<rparr>
             else position_result0);
          environment = (if tr \<noteq> ''NEUTRAL'' then ''trending'' else ''ranging'');
          trailing_stop_params =
            calculate_trailing_stop_params quality_score tr (Some environment);
          level = (if risk_percent position_result \<le> 1.0 then RiskLow
                   else if risk_percent position_result \<le> 2.0 then RiskMedium
                   else RiskHigh);
          (rec, reason) =
            (if level = RiskHigh \<and> quality_score < 7.0 then (AVOID, RiskHighQualityLow)
             else if leverage > 10 \<and> quality_score < 8.0
               then (REDUCE_LEVERAGE, LeverageHighQualityLow)
             else if position_value position_result < 10.0
               then (INCREASE_SIZE, PositionValueTooSmall)
             else (PROCEED, ParametersReasonable))
      in \<lparr>rd_entry_price = current_price,
          rd_stop_loss = stop_loss stop_loss_result,
          rd_take_profit = take_profit stop_loss_result,
          rd_position_size = position_size position_result,
          rd_position_value = position_value position_result,
          rd_max_risk_percent = max_risk_percent,
          rd_actual_risk_percent = risk_percent position_result,
          rd_risk_level = level,
          rd_leverage = leverage,
          rd_risk_reward_ratio = risk_reward_ratio stop_loss_result,
          rd_trailing_stop = trailing_stop_params,
          rd_quality_score = quality_score,
          rd_trend = tr,
          rd_trend_confidence = conf,
          rd_vortex_adjustment = vortex_adjustment,
          rd_recommendation = rec,
          rd_recommendation_reason = reason\<rparr>)"



section \<open>simple\_trading\_bot.py: the open positions\<close>

subsection \<open>A position\<close>

text \<open>
  A position is a dictionary. The keys the source reads with \<open>pos[key]\<close> or only
  writes are plain fields; the keys it reads with \<open>pos.get(key, default)\<close> are
  optional fields, \<open>None\<close> standing for a dictionary without the key.
  \<open>lowest_price\<close> can be \<open>float('inf')\<close>. The identifier
  \<open>f"{symbol}_{position_side}_{int(time.time())}"\<close> is kept as its three parts.
  The clock \<open>time.time()\<close> is the parameter \<open>now\<close> of the functions that read it.
\<close>

datatype position_side = LONG | SHORT

datatype price_bound = Finite real | Infinity

record position =
  symbol :: string
  side :: string
  position_side :: "position_side option"
  entry_price :: real
  quantity :: real
  open_time :: real
  last_update_time :: real
  max_profit :: real
  initial_stop_loss :: "real option"
  trailing_activation :: "real option"
  trailing_distance :: "real option"
  trailing_active :: "bool option"
  highest_price :: "real option"
  lowest_price :: "price_bound option"
  current_stop_level :: "real option"
  position_id :: "string \<times> position_side \<times> int"

text \<open>The reads \<open>pos.get(key, default)\<close> at the head of the supervisor's loop body.\<close>

definition get_position_side :: "position \<Rightarrow> position_side" where
  "get_position_side pos = (case position_side pos of None \<Rightarrow> LONG | Some d \<Rightarrow> d)"

definition get_initial_stop_loss :: "position \<Rightarrow> real" where
  "get_initial_stop_loss pos = (case initial_stop_loss pos of None \<Rightarrow> - 0.0175 | Some v \<Rightarrow> v)"

definition get_trailing_activation :: "position \<Rightarrow> real" where
  "get_trailing_activation pos = (case trailing_activation pos of None \<Rightarrow> 0.012 | Some v \<Rightarrow> v)"

definition get_trailing_distance :: "position \<Rightarrow> real" where
  "get_trailing_distance pos = (case trailing_distance pos of None \<Rightarrow> 0.003 | Some v \<Rightarrow> v)"

definition get_trailing_active :: "position \<Rightarrow> bool" where
  "get_trailing_active pos = (case trailing_active pos of None \<Rightarrow> False | Some b \<Rightarrow> b)"

definition get_highest_price :: "position \<Rightarrow> real" where
  "get_highest_price pos =
     (case highest_price pos of
        None \<Rightarrow> if get_position_side pos = LONG then entry_price pos else 0
      | Some v \<Rightarrow> v)"

definition get_lowest_price :: "position \<Rightarrow> price_bound" where
  "get_lowest_price pos =
     (case lowest_price pos of
        None \<Rightarrow> if get_position_side pos = SHORT then Finite (entry_price pos) else Infinity
      | Some v \<Rightarrow> v)"

definition get_current_stop_level :: "position \<Rightarrow> real" where
  "get_current_stop_level pos =
     (case current_stop_level pos of
        None \<Rightarrow> if get_position_side pos = LONG
                then entry_price pos * (1 + get_initial_stop_loss pos)
                else entry_price pos * (1 - get_initial_stop_loss pos)
      | Some v \<Rightarrow> v)"

fun below :: "real \<Rightarrow> price_bound \<Rightarrow> bool" where
  "below x Infinity = True"
| "below x (Finite y) = (x < y)"

subsection \<open>record\_position\_with\_trailing\_stop\<close>

definition position_side_of :: "string \<Rightarrow> position_side" where
  "position_side_of sd = (if upper sd = ''BUY'' then LONG else SHORT)"

text \<open>
  The merge of a fill into the position found in the list. The division by
  \<open>total_qty\<close> raises before anything is written.
\<close>

definition merge_fill :: "real \<Rightarrow> position_side \<Rightarrow> real \<Rightarrow> real \<Rightarrow> real \<Rightarrow> real \<Rightarrow> real \<Rightarrow> position \<Rightarrow> error + position" where
  "merge_fill now d entry qty stop_fraction activation distance pos =
     (let total_qty = quantity pos + qty in
      if total_qty = 0 then Inl ZeroDivisionError
      else
        let new_entry = (entry_price pos * quantity pos + entry * qty) / total_qty in
        Inr (pos\<lparr>entry_price := new_entry,
                 quantity := total_qty,
                 last_update_time := now,
                 initial_stop_loss := Some stop_fraction,
                 trailing_activation := Some activation,
                 trailing_distance := Some distance,
                 trailing_active := Some False,
                 highest_price := Some (if d = LONG then new_entry else 0),
                 lowest_price := Some (if d = SHORT then Finite new_entry else Infinity),
                 current_stop_level :=
                   Some (if d = LONG then new_entry * (1 + stop_fraction)
                         else new_entry * (1 - stop_fraction))\<rparr>))"

text \<open>
  The loop over the list, which \<open>record_position_with_trailing_stop\<close> and
  \<open>record_open_position\<close> share: the first position with the same symbol and
  position side takes the fill, by the statements \<open>merge\<close> of the function at hand,
  and the function returns; \<open>None\<close> when the loop ends without a match.
\<close>

fun merge_first :: "(position \<Rightarrow> error + position) \<Rightarrow> string \<Rightarrow> position_side \<Rightarrow> position list \<Rightarrow> (error + position list) option" where
  "merge_first merge symb d [] = None"
| "merge_first merge symb d (pos # rest) =
     (if symbol pos = symb \<and> position_side pos = Some d then
        Some (case merge pos of
                Inl e \<Rightarrow> Inl e
              | Inr pos' \<Rightarrow> Inr (pos' # rest))
      else
        (case merge_first merge symb d rest of
           None \<Rightarrow> None
         | Some (Inl e) \<Rightarrow> Some (Inl e)
         | Some (Inr rest') \<Rightarrow> Some (Inr (pos # rest'))))"

definition truncate :: "real \<Rightarrow> int" where
  "truncate x = (if x \<ge> 0 then \<lfloor>x\<rfloor> else \<lceil>x\<rceil>)"

definition new_position :: "real \<Rightarrow> string \<Rightarrow> string \<Rightarrow> real \<Rightarrow> real \<Rightarrow> real \<Rightarrow> real \<Rightarrow> real \<Rightarrow> position" where
  "new_position now symb sd entry qty stop_fraction activation distance =
     (let d = position_side_of sd;
          initial_stop_price = (if d = LONG then entry * (1 + stop_fraction)
                                else entry * (1 - stop_fraction))
      in \<lparr>symbol = symb,
          side = sd,
          position_side = Some d,
          entry_price = entry,
          quantity = qty,
          open_time = now,
          last_update_time = now,
          max_profit = 0.0,
          initial_stop_loss = Some stop_fraction,
          trailing_activation = Some activation,
          trailing_distance = Some distance,
          trailing_active = Some False,
          highest_price = Some (if d = LONG then entry else 0),
          lowest_price = Some (if d = SHORT then Finite entry else Infinity),
          current_stop_level = Some initial_stop_price,
          position_id = (symb, d, truncate now)\<rparr>)"

definition record_position_with_trailing_stop :: "real \<Rightarrow> string \<Rightarrow> string \<Rightarrow> real \<Rightarrow> real \<Rightarrow> real \<Rightarrow> real \<Rightarrow> real \<Rightarrow> position list \<Rightarrow> error + position list" where
  "record_position_with_trailing_stop now symb sd entry qty stop_fraction activation distance
      open_positions =
     (case merge_first
             (merge_fill now (position_side_of sd) entry qty stop_fraction activation distance)
             symb (position_side_of sd) open_positions of
        Some r \<Rightarrow> r
      | None \<Rightarrow>
          Inr (open_positions
               @ [new_position now symb sd entry qty stop_fraction activation distance]))"

subsection \<open>record\_open\_position\<close>



subsection \<open>The end of place\_futures\_order\_usdc\<close>

text \<open>
  The end of \<open>place_futures_order_usdc\<close>, after the exchange has accepted the market
  order: the stop and trailing parameters fixed earlier in the function, and the call that
  records the fill. The upside potential comes from \<open>calculate_upside_potential\<close>, the
  price and the quantity from the exchange data; they are parameters.
\<close>

definition place_futures_order_usdc_record :: "real \<Rightarrow> string \<Rightarrow> string \<Rightarrow> real \<Rightarrow> real \<Rightarrow> real \<Rightarrow> position list \<Rightarrow> error + position list" where
  "place_futures_order_usdc_record now symb sd current_price qty upside_potential open_positions =
     (let stop_fraction = 0.008;
          trailing_activation_threshold = 0.012;
          distance = (if upside_potential > 0.05 then 0.004 else 0.002)
      in record_position_with_trailing_stop now symb sd current_price qty
           (if upper sd = ''SELL'' then stop_fraction else - stop_fraction)
           trailing_activation_threshold distance open_positions)"

subsection \<open>The supervisor's loop body\<close>

text \<open>
  The loop body of \<open>manage_open_positions\<close> and the loop body of
  \<open>active_position_monitor\<close>, the 15-second thread, hold the same two blocks, one
  per position side, which follow the best price seen, arm the trailing stop and move
  the stop level. Each block is one function here, used by both bodies. It takes the
  position, the current price and the profit fraction, and returns the position with
  the entries the block has written, and the local variables \<open>trailing_active\<close>
  and \<open>current_stop_level\<close> as the block leaves them.
\<close>

definition track_highest :: "position \<Rightarrow> real \<Rightarrow> real \<Rightarrow> position \<times> bool \<times> real" where
  "track_highest pos current_price profit_pct =
     (let activation = get_trailing_activation pos;
          distance = get_trailing_distance pos;
          active0 = get_trailing_active pos;
          highest0 = get_highest_price pos;
          stop0 = get_current_stop_level pos
      in
      if current_price > highest0 then
        let highest = current_price;
            pos_h = pos\<lparr>highest_price := Some highest\<rparr>;
            (pos_a, active_a) =
              (if \<not> active0 \<and> profit_pct \<ge> activation
               then (pos_h\<lparr>trailing_active := Some True\<rparr>, True)
               else (pos_h, active0))
        in
        if active_a then
          let new_stop_level = highest * (1 - distance) in
          if new_stop_level > stop0
          then (pos_a\<lparr>current_stop_level := Some new_stop_level\<rparr>, active_a, new_stop_level)
          else (pos_a, active_a, stop0)
        else (pos_a, active_a, stop0)
      else (pos, active0, stop0))"

definition track_lowest :: "position \<Rightarrow> real \<Rightarrow> real \<Rightarrow> position \<times> bool \<times> real" where
  "track_lowest pos current_price profit_pct =
     (let activation = get_trailing_activation pos;
          distance = get_trailing_distance pos;
          active0 = get_trailing_active pos;
          lowest0 = get_lowest_price pos;
          stop0 = get_current_stop_level pos
      in
      if below current_price lowest0 \<or> lowest0 = Finite 0 then
        let lowest = current_price;
            pos_l = pos\<lparr>lowest_price := Some (Finite lowest)\<rparr>;
            (pos_a, active_a) =
              (if \<not> active0 \<and> profit_pct \<ge> activation
               then (pos_l\<lparr>trailing_active := Some True\<rparr>, True)
               else (pos_l, active0))
        in
        if active_a then
          let new_stop_level = lowest * (1 + distance) in
          if new_stop_level < stop0 \<or> stop0 = 0
          then (pos_a\<lparr>current_stop_level := Some new_stop_level\<rparr>, active_a, new_stop_level)
          else (pos_a, active_a, stop0)
        else (pos_a, active_a, stop0)
      else (pos, active0, stop0))"

text \<open>
  One iteration of the loop \<open>for pos in self.open_positions\<close> of
  \<open>manage_open_positions\<close>. \<open>ticker\<close> is the exchange's price call, which may
  raise; \<open>close\<close> is the success flag that \<open>self.close_position(symbol,
  position_side)\<close> returns when the body calls it. The result is the position as the
  body leaves it, and whether the body appends it to \<open>positions_to_remove\<close>.
  A failed price call skips the position (\<open>continue\<close>). The division by
  \<open>entry_price\<close> raises before anything is written, and no handler of the function
  catches it.
\<close>

definition manage_position :: "(string \<Rightarrow> error + real) \<Rightarrow> (string \<Rightarrow> position_side \<Rightarrow> bool) \<Rightarrow> position \<Rightarrow> error + position \<times> bool" where
  "manage_position ticker close pos =
     (let symb = symbol pos;
          d = get_position_side pos;
          entry = entry_price pos
      in
      case ticker symb of
        Inl e \<Rightarrow> Inr (pos, False)
      | Inr current_price \<Rightarrow>
          if entry = 0 then Inl ZeroDivisionError
          else if d = LONG then
            (let profit_pct = (current_price - entry) / entry;
                 (pos1, active, stop) = track_highest pos current_price profit_pct
             in
             if current_price \<le> stop then Inr (pos1, close symb d)
             else Inr (pos1, False))
          else
            (let profit_pct = (entry - current_price) / entry;
                 (pos1, active, stop) = track_lowest pos current_price profit_pct
             in
             if current_price \<ge> stop \<and> stop > 0 then Inr (pos1, close symb d)
             else Inr (pos1, False)))"

text \<open>
  One iteration of the loop \<open>for pos in positions\<close> of
  \<open>active_position_monitor\<close>. After a successful close it only logs, since
  \<open>close_position\<close> has taken the position out of the list; the flag of the result
  is that success. An exception ends the thread's loop.
\<close>

definition monitor_position :: "(string \<Rightarrow> error + real) \<Rightarrow> (string \<Rightarrow> position_side \<Rightarrow> bool) \<Rightarrow> position \<Rightarrow> error + position \<times> bool" where
  "monitor_position ticker close pos =
     (let symb = symbol pos;
          d = get_position_side pos;
          entry = entry_price pos
      in
      case ticker symb of
        Inl e \<Rightarrow> Inr (pos, False)
      | Inr current_price \<Rightarrow>
          if entry = 0 then Inl ZeroDivisionError
          else if d = LONG then
            (let profit_pct = (current_price - entry) / entry;
                 (pos1, active, stop) = track_highest pos current_price profit_pct
             in
             if current_price \<le> stop then Inr (pos1, close symb d)
             else Inr (pos1, False))
          else
            (let profit_pct = (entry - current_price) / entry;
                 (pos1, active, stop) = track_lowest pos current_price profit_pct
             in
             if current_price \<ge> stop \<and> stop > 0 then Inr (pos1, close symb d)
             else Inr (pos1, False)))"


subsection \<open>close\_position\<close>






text \<open>The first position of the list with a symbol and a position side.\<close>

definition find_position :: "string \<Rightarrow> position_side \<Rightarrow> position list \<Rightarrow> position option" where
  "find_position symb d open_positions =
     find (\<lambda>pos. symbol pos = symb \<and> position_side pos = Some d) open_positions"

section \<open>Concrete inputs\<close>



text \<open>An exchange that quotes one price, and close calls that succeed or fail.\<close>

definition quote :: "real \<Rightarrow> string \<Rightarrow> error + real" where
  "quote p symb = Inr p"

definition close_succeeds :: "string \<Rightarrow> position_side \<Rightarrow> bool" where
  "close_succeeds symb d = True"

definition close_fails :: "string \<Rightarrow> position_side \<Rightarrow> bool" where
  "close_fails symb d = False"

text \<open>
  Positions: a long position opened at 100 by \<open>place_futures_order_usdc\<close>; the
  same after a tick at 110 has armed it; after a second fill at 110 has been merged into
  it; after a tick at 101 instead; and after \<open>record_open_position\<close> has then
  merged a fill at 98. A short position opened at 200; the same after a tick at 190 has
  armed it; and an armed short position whose stop level is 0.
\<close>

definition long_opened :: position where
  "long_opened = new_position 0 ''BTCUSDC'' ''BUY'' 100 1 (- 0.008) 0.012 0.002"

definition long_armed :: position where
  "long_armed =
     long_opened\<lparr>highest_price := Some 110, trailing_active := Some True,
                  current_stop_level := Some 109.78\<rparr>"

definition long_merged :: position where
  "long_merged =
     long_armed\<lparr>entry_price := 105, quantity := 2, last_update_time := 60,
                 trailing_active := Some False, highest_price := Some 105,
                 current_stop_level := Some 104.16\<rparr>"



definition short_opened :: position where
  "short_opened = new_position 0 ''ETHUSDC'' ''SELL'' 200 1 0.008 0.012 0.002"


definition short_unset :: position where
  "short_unset = short_opened\<lparr>trailing_active := Some True, current_stop_level := Some 0\<rparr>"



section \<open>Properties\<close>

subsection \<open>Auxiliary facts\<close>

lemma then_do_Inl [simp]: "then_do (Inl e) f = Inl e"
  by (simp add: then_do_def)

lemma then_do_Inr [simp]: "then_do (Inr x) f = f x"
  by (simp add: then_do_def)

lemma upper_BUY [simp]: "upper ''BUY'' = ''BUY''"
  by (simp add: upper_def upper_char_def)

lemma upper_SELL [simp]: "upper ''SELL'' = ''SELL''"
  by (simp add: upper_def upper_char_def)






lemma monitor_position_eq: "monitor_position ticker close pos = manage_position ticker close pos"
  by (simp add: monitor_position_def manage_position_def)

lemma get_stop_updates [simp]:
  "get_current_stop_level (pos\<lparr>current_stop_level := Some v\<rparr>) = v"
  "get_current_stop_level (pos\<lparr>highest_price := h\<rparr>) = get_current_stop_level pos"
  "get_current_stop_level (pos\<lparr>lowest_price := l\<rparr>) = get_current_stop_level pos"
  "get_current_stop_level (pos\<lparr>trailing_active := a\<rparr>) = get_current_stop_level pos"
  by (simp_all add: get_current_stop_level_def get_position_side_def get_initial_stop_loss_def
      split: option.split)

lemma get_active_updates [simp]:
  "get_trailing_active (pos\<lparr>trailing_active := Some b\<rparr>) = b"
  "get_trailing_active (pos\<lparr>highest_price := h\<rparr>) = get_trailing_active pos"
  "get_trailing_active (pos\<lparr>lowest_price := l\<rparr>) = get_trailing_active pos"
  "get_trailing_active (pos\<lparr>current_stop_level := c\<rparr>) = get_trailing_active pos"
  by (simp_all add: get_trailing_active_def)

lemma get_side_updates [simp]:
  "get_position_side (pos\<lparr>trailing_active := a\<rparr>) = get_position_side pos"
  "get_position_side (pos\<lparr>highest_price := h\<rparr>) = get_position_side pos"
  "get_position_side (pos\<lparr>lowest_price := l\<rparr>) = get_position_side pos"
  "get_position_side (pos\<lparr>current_stop_level := c\<rparr>) = get_position_side pos"
  by (simp_all add: get_position_side_def)

lemma get_distance_updates [simp]:
  "get_trailing_distance (pos\<lparr>trailing_active := a\<rparr>) = get_trailing_distance pos"
  "get_trailing_distance (pos\<lparr>highest_price := h\<rparr>) = get_trailing_distance pos"
  "get_trailing_distance (pos\<lparr>lowest_price := l\<rparr>) = get_trailing_distance pos"
  "get_trailing_distance (pos\<lparr>current_stop_level := c\<rparr>) = get_trailing_distance pos"
  by (simp_all add: get_trailing_distance_def)
















lemma position_side_of_BUY [simp]: "position_side_of ''BUY'' = LONG"
  by (simp add: position_side_of_def)

lemma position_side_of_SELL [simp]: "position_side_of ''SELL'' = SHORT"
  by (simp add: position_side_of_def)







lemma merge_first_split:
  assumes "\<forall>p \<in> set pre. \<not> (symbol p = symb \<and> position_side p = Some d)"
    and "symbol pos = symb" and "position_side pos = Some d"
  shows "merge_first merge symb d (pre @ pos # post) =
           Some (case merge pos of
                   Inl e \<Rightarrow> Inl e
                 | Inr pos' \<Rightarrow> Inr (pre @ pos' # post))"
  using assms
proof (induction pre)
  case Nil
  then show ?case by (simp split: sum.split)
next
  case (Cons a pre)
  then show ?case by (auto split: sum.split)
qed

lemma find_position_append:
  "find_position symb d (ps @ [p]) =
     (case find_position symb d ps of
        None \<Rightarrow> if symbol p = symb \<and> position_side p = Some d then Some p else None
      | Some q \<Rightarrow> Some q)"
  by (induction ps) (simp_all add: find_position_def)

lemma merge_first_None:
  "merge_first merge symb d ps = None \<Longrightarrow> find_position symb d ps = None"
  by (induction ps) (auto simp add: find_position_def split: if_splits option.splits sum.splits)

lemma merge_first_recorded:
  "merge_first (merge_fill now d entry qty sf act gap) symb d ps = Some (Inr ps') \<Longrightarrow>
   \<exists>p. find_position symb d ps' = Some p
     \<and> initial_stop_loss p = Some sf
     \<and> trailing_active p = Some False
     \<and> lowest_price p = Some (if d = SHORT then Finite (entry_price p) else Infinity)
     \<and> current_stop_level p
         = Some (if d = LONG then entry_price p * (1 + sf) else entry_price p * (1 - sf))"
proof (induction ps arbitrary: ps')
  case Nil
  then show ?case by simp
next
  case (Cons a ps)
  show ?case
  proof (cases "symbol a = symb \<and> position_side a = Some d")
    case True
    with Cons.prems obtain a' where
      m: "merge_fill now d entry qty sf act gap a = Inr a'" and p: "ps' = a' # ps"
      by (auto split: sum.splits)
    from m True have "symbol a' = symb \<and> position_side a' = Some d
      \<and> initial_stop_loss a' = Some sf \<and> trailing_active a' = Some False
      \<and> lowest_price a' = Some (if d = SHORT then Finite (entry_price a') else Infinity)
      \<and> current_stop_level a'
         = Some (if d = LONG then entry_price a' * (1 + sf) else entry_price a' * (1 - sf))"
      by (auto simp add: merge_fill_def Let_def split: if_splits)
    with p show ?thesis by (simp add: find_position_def)
  next
    case False
    with Cons.prems obtain rest where
      r: "merge_first (merge_fill now d entry qty sf act gap) symb d ps = Some (Inr rest)"
      and p: "ps' = a # rest"
      by (auto split: option.splits sum.splits)
    from Cons.IH [OF r] False p show ?thesis by (auto simp add: find_position_def)
  qed
qed

lemma record_position_recorded:
  assumes "record_position_with_trailing_stop now symb sd entry qty sf act gap ps = Inr ps'"
  shows "\<exists>p. find_position symb (position_side_of sd) ps' = Some p
     \<and> initial_stop_loss p = Some sf
     \<and> trailing_active p = Some False
     \<and> lowest_price p
         = Some (if position_side_of sd = SHORT then Finite (entry_price p) else Infinity)
     \<and> current_stop_level p
         = Some (if position_side_of sd = LONG then entry_price p * (1 + sf)
                 else entry_price p * (1 - sf))"
proof (cases "merge_first (merge_fill now (position_side_of sd) entry qty sf act gap) symb
    (position_side_of sd) ps")
  case None
  with assms have p: "ps' = ps @ [new_position now symb sd entry qty sf act gap]"
    by (simp add: record_position_with_trailing_stop_def)
  from None have "find_position symb (position_side_of sd) ps = None"
    by (rule merge_first_None)
  with p show ?thesis
    by (simp add: find_position_append new_position_def Let_def)
next
  case (Some r)
  with assms have "merge_first (merge_fill now (position_side_of sd) entry qty sf act gap) symb
      (position_side_of sd) ps = Some (Inr ps')"
    by (simp add: record_position_with_trailing_stop_def)
  then show ?thesis by (rule merge_first_recorded)
qed

subsection \<open>The stop and target calculator\<close>

text \<open>
  Claim C9. For entry 100, leverage 4, base stop fraction 0.03 and side BUY the
  leverage-adjusted stop is \<open>100 * (1 - 0.03 / sqrt 4) = 98.5\<close>, and the take-profit
  derived from that stop with risk-reward 2.0 is \<open>100 + (100 - 98.5) * 2 = 103\<close>.
\<close>

theorem leveraged_stop_and_take_profit_example:
  "calculate_leveraged_stop_loss 100 4 0.03 ''BUY'' = Inr 98.5
   \<and> calculate_dynamic_take_profit 100 98.5 2.0 ''BUY'' = 103.0"
  by (simp add: calculate_leveraged_stop_loss_def calculate_dynamic_take_profit_def)




subsection \<open>The position sizer\<close>

text \<open>
  Claim C8, as stated, fails in its last part: a positive unit risk alone does not make
  the returned size positive. With a balance of 0 the function raises
  \<open>ZeroDivisionError\<close> and returns no size; with a risk budget of 0 percent it
  returns the size 0.
\<close>

theorem position_size_not_positive_counterexample:
  "unit_risk_of 100 98.5 > 0
   \<and> calculate_position_size 0 100 98.5 2 5 = Inl ZeroDivisionError
   \<and> map_sum id position_size (calculate_position_size 1000 100 98.5 0 5) = Inr 0"
  by (simp add: calculate_position_size_def Let_def unit_risk_of_def max_risk_amount_of_def)

text \<open>
  Claim C8, amended. When the unit risk, the entry price, the leverage and the balance
  are not zero, \<open>calculate_position_size\<close> returns with
  \<open>unit_risk = |entry - stop|\<close>, the risk amount \<open>balance * (percent / 100)\<close>,
  the size \<open>(risk amount / unit_risk) * leverage\<close> and the value \<open>size * entry\<close>.
  On balance 1000, entry 100, stop 98.5, 2 percent and leverage 5 the unit risk is 1.5,
  the risk amount 20, the size \<open>200/3\<close> (66.67 to two decimals) and the value
  \<open>20000/3\<close> (6667 to the unit). When the unit risk, the balance and the risk
  percent are positive, the leverage is at least 1 and the entry price is not zero, the
  returned size is strictly positive.
\<close>

theorem calculate_position_size_formulas:
  "(unit_risk_of e s \<noteq> 0 \<and> e \<noteq> 0 \<and> lev \<noteq> 0 \<and> b \<noteq> 0 \<longrightarrow>
      (\<exists>r. calculate_position_size b e s pct lev = Inr r
         \<and> unit_risk r = \<bar>e - s\<bar>
         \<and> max_risk_amount_of b pct = b * (pct / 100)
         \<and> position_size r = (max_risk_amount_of b pct / unit_risk r) * real lev
         \<and> position_value r = position_size r * e))
   \<and> (\<exists>r. calculate_position_size 1000 100 98.5 2 5 = Inr r
         \<and> unit_risk r = 1.5
         \<and> max_risk_amount_of 1000 2 = 20
         \<and> position_size r = 200 / 3 \<and> \<bar>position_size r - 66.67\<bar> < 0.005
         \<and> position_value r = 20000 / 3 \<and> \<bar>position_value r - 6667\<bar> < 0.5)
   \<and> (unit_risk_of e s > 0 \<and> b > 0 \<and> pct > 0 \<and> lev \<ge> 1 \<and> e \<noteq> 0 \<longrightarrow>
      (\<exists>r. calculate_position_size b e s pct lev = Inr r \<and> position_size r > 0))"
proof (intro conjI impI)
  assume "unit_risk_of e s \<noteq> 0 \<and> e \<noteq> 0 \<and> lev \<noteq> 0 \<and> b \<noteq> 0"
  then show "\<exists>r. calculate_position_size b e s pct lev = Inr r
         \<and> unit_risk r = \<bar>e - s\<bar>
         \<and> max_risk_amount_of b pct = b * (pct / 100)
         \<and> position_size r = (max_risk_amount_of b pct / unit_risk r) * real lev
         \<and> position_value r = position_size r * e"
    by (simp add: calculate_position_size_def Let_def unit_risk_of_def max_risk_amount_of_def)
next
  show "\<exists>r. calculate_position_size 1000 100 98.5 2 5 = Inr r
         \<and> unit_risk r = 1.5
         \<and> max_risk_amount_of 1000 2 = 20
         \<and> position_size r = 200 / 3 \<and> \<bar>position_size r - 66.67\<bar> < 0.005
         \<and> position_value r = 20000 / 3 \<and> \<bar>position_value r - 6667\<bar> < 0.5"
    by (simp add: calculate_position_size_def Let_def unit_risk_of_def max_risk_amount_of_def)
next
  assume h: "unit_risk_of e s > 0 \<and> b > 0 \<and> pct > 0 \<and> lev \<ge> 1 \<and> e \<noteq> 0"
  then have "0 < max_risk_amount_of b pct / unit_risk_of e s * real lev"
    by (simp add: max_risk_amount_of_def)
  with h show "\<exists>r. calculate_position_size b e s pct lev = Inr r \<and> position_size r > 0"
    by (simp add: calculate_position_size_def Let_def)
qed

theorem calculate_position_size_formulas_witness:
  "\<exists>r. calculate_position_size 500 50 49 1 3 = Inr r
       \<and> unit_risk r = 1 \<and> position_size r = 15 \<and> position_value r = 750 \<and> position_size r > 0"
proof -
  have h1: "unit_risk_of 50 49 \<noteq> 0 \<and> (50::real) \<noteq> 0 \<and> (3::nat) \<noteq> 0 \<and> (500::real) \<noteq> 0"
    by (simp add: unit_risk_of_def)
  from calculate_position_size_formulas [of 50 49 3 500 1] h1
  obtain r where "calculate_position_size 500 50 49 1 3 = Inr r"
    "unit_risk r = \<bar>50 - 49\<bar>"
    "position_size r = (max_risk_amount_of 500 1 / unit_risk r) * real (3::nat)"
    "position_value r = position_size r * 50"
    by blast
  then show ?thesis by (simp add: max_risk_amount_of_def)
qed

subsection \<open>The adaptive risk orchestrator\<close>




text \<open>
  The floor of 50 on the notional value is applied before the rules are read, so the
  third rule never fires: INCREASE\_SIZE is not among the results.
\<close>

lemma assess_never_increase_size:
  "rd_position_value (assess q lev cp tr c va mrp slr pr0) \<ge> 50
   \<and> rd_recommendation (assess q lev cp tr c va mrp slr pr0) \<noteq> INCREASE_SIZE"
  by (simp add: assess_def Let_def)

subsection \<open>The trailing-stop position supervisor\<close>


text \<open>
  For a SHORT position the source treats a stop level of 0 as not set: the first
  trailing candidate replaces it, which raises the stop from 0.
\<close>

lemma short_zero_stop_is_replaced:
  "get_position_side short_unset = SHORT
   \<and> get_current_stop_level short_unset = 0
   \<and> manage_position (quote 190) close_fails short_unset
       = Inr (short_unset\<lparr>lowest_price := Some (Finite 190),
                           current_stop_level := Some 190.38\<rparr>, False)"
  by (simp add: short_unset_def short_opened_def new_position_def
      manage_position_def track_lowest_def quote_def close_fails_def Let_def
      get_position_side_def get_trailing_activation_def get_trailing_distance_def
      get_trailing_active_def get_lowest_price_def get_current_stop_level_def)








subsection \<open>Recording a fill\<close>

text \<open>
  Claim C4. When a fill is recorded for a symbol and position side that has an open
  position, the first such position of the list is updated in place and no position is
  added: its entry price becomes
  \<open>(old entry * old quantity + new entry * new quantity) / (old quantity + new
  quantity)\<close>, its quantity the sum, \<open>trailing_active\<close> is false, the stop and
  trailing fractions are those of the call, and the best prices and the stop level are
  set again from the merged entry price. The sum of the quantities must not be zero.
\<close>

theorem merge_on_reentry:
  assumes "\<forall>p \<in> set pre. \<not> (symbol p = symb \<and> position_side p = Some (position_side_of sd))"
    and "symbol pos = symb" and "position_side pos = Some (position_side_of sd)"
    and "quantity pos + qty \<noteq> 0"
  shows "\<exists>pos'.
      record_position_with_trailing_stop now symb sd entry qty sf act gap (pre @ pos # post)
        = Inr (pre @ pos' # post)
      \<and> length (pre @ pos' # post) = length (pre @ pos # post)
      \<and> symbol pos' = symb \<and> position_side pos' = Some (position_side_of sd)
      \<and> entry_price pos' = (entry_price pos * quantity pos + entry * qty) / (quantity pos + qty)
      \<and> quantity pos' = quantity pos + qty
      \<and> trailing_active pos' = Some False
      \<and> initial_stop_loss pos' = Some sf
      \<and> trailing_activation pos' = Some act
      \<and> trailing_distance pos' = Some gap
      \<and> highest_price pos' = Some (if position_side_of sd = LONG then entry_price pos' else 0)
      \<and> lowest_price pos'
          = Some (if position_side_of sd = SHORT then Finite (entry_price pos') else Infinity)
      \<and> current_stop_level pos'
          = Some (if position_side_of sd = LONG then entry_price pos' * (1 + sf)
                  else entry_price pos' * (1 - sf))"
  using merge_first_split [OF assms(1,2,3),
      of "merge_fill now (position_side_of sd) entry qty sf act gap" post] assms(2,3,4)
  by (simp add: record_position_with_trailing_stop_def merge_fill_def Let_def)

theorem merge_on_reentry_witness:
  "record_position_with_trailing_stop 60 ''BTCUSDC'' ''BUY'' 110 1 (- 0.008) 0.012 0.002
      [short_opened, long_armed] = Inr [short_opened, long_merged]
   \<and> entry_price long_merged = 105 \<and> quantity long_merged = 2
   \<and> trailing_active long_merged = Some False"
proof -
  have a: "\<forall>p \<in> set [short_opened].
      \<not> (symbol p = ''BTCUSDC'' \<and> position_side p = Some (position_side_of ''BUY''))"
    by (simp add: short_opened_def new_position_def)
  have b: "symbol long_armed = ''BTCUSDC''"
    "position_side long_armed = Some (position_side_of ''BUY'')"
    "quantity long_armed + 1 \<noteq> 0"
    by (simp_all add: long_armed_def long_opened_def new_position_def)
  from merge_on_reentry [where pre = "[short_opened]" and pos = long_armed and post = "[]"
      and sd = "''BUY''" and symb = "''BTCUSDC''" and qty = 1 and now = 60 and entry = 110
      and sf = "- 0.008" and act = "0.012" and gap = "0.002", OF a b]
  obtain pos' where
    r: "record_position_with_trailing_stop 60 ''BTCUSDC'' ''BUY'' 110 1 (- 0.008) 0.012 0.002
      ([short_opened] @ long_armed # []) = Inr ([short_opened] @ pos' # [])"
    by blast
  have "record_position_with_trailing_stop 60 ''BTCUSDC'' ''BUY'' 110 1 (- 0.008) 0.012 0.002
      [short_opened, long_armed] = Inr [short_opened, long_merged]"
    by (simp add: record_position_with_trailing_stop_def short_opened_def
        long_opened_def long_armed_def long_merged_def new_position_def merge_fill_def Let_def)
  with r show ?thesis by (simp add: long_merged_def)
qed

text \<open>
  Claim C5. A fill of a SELL order recorded by \<open>place_futures_order_usdc\<close> (the
  exchange takes orders of side BUY and SELL only, so a recorded SHORT position comes
  from a SELL) leaves a SHORT position whose \<open>initial_stop_loss\<close> is \<open>+0.008\<close>
  and whose stop level is \<open>entry_price * (1 - 0.008)\<close>, below a positive entry
  price. At a tick that quotes the entry price itself the stop test of both loop bodies
  holds and the close is issued: the flag of the result is the answer of the close.
\<close>

theorem short_stop_below_entry:
  assumes "upper sd = ''SELL''"
    and "place_futures_order_usdc_record now symb sd price qty upside ps = Inr ps'"
  shows "\<exists>p. find_position symb SHORT ps' = Some p
     \<and> initial_stop_loss p = Some 0.008
     \<and> current_stop_level p = Some (entry_price p * (1 - 0.008))
     \<and> (entry_price p > 0 \<longrightarrow>
          get_current_stop_level p < entry_price p
          \<and> manage_position (quote (entry_price p)) close p = Inr (p, close symb SHORT)
          \<and> monitor_position (quote (entry_price p)) close p = Inr (p, close symb SHORT))"
proof -
  have d: "position_side_of sd = SHORT" using assms(1) by (simp add: position_side_of_def)
  from assms have "record_position_with_trailing_stop now symb sd price qty 0.008 0.012
      (if upside > 0.05 then 0.004 else 0.002) ps = Inr ps'"
    by (simp add: place_futures_order_usdc_record_def Let_def)
  from record_position_recorded [OF this] d obtain p where
    p: "find_position symb SHORT ps' = Some p" "initial_stop_loss p = Some 0.008"
       "trailing_active p = Some False" "lowest_price p = Some (Finite (entry_price p))"
       "current_stop_level p = Some (entry_price p * (1 - 0.008))"
    by auto
  from p(1) have s: "symbol p = symb" "position_side p = Some SHORT"
    by (auto simp add: find_position_def dest: find_Some_iff [THEN iffD1])
  have t: "entry_price p > 0 \<Longrightarrow>
      manage_position (quote (entry_price p)) close p = Inr (p, close symb SHORT)"
    using p s
    by (simp add: manage_position_def track_lowest_def quote_def Let_def
        get_position_side_def get_lowest_price_def get_current_stop_level_def
        get_trailing_active_def)
  have u: "entry_price p > 0 \<Longrightarrow> get_current_stop_level p < entry_price p"
    using p by (simp add: get_current_stop_level_def)
  from p t u show ?thesis using monitor_position_eq by auto
qed

theorem short_stop_below_entry_witness:
  "place_futures_order_usdc_record 0 ''ETHUSDC'' ''SELL'' 200 1 0.03 [] = Inr [short_opened]
   \<and> find_position ''ETHUSDC'' SHORT [short_opened] = Some short_opened
   \<and> current_stop_level short_opened = Some 198.4
   \<and> manage_position (quote 200) close_succeeds short_opened = Inr (short_opened, True)"
proof -
  have a: "upper ''SELL'' = ''SELL''" by simp
  have b: "place_futures_order_usdc_record 0 ''ETHUSDC'' ''SELL'' 200 1 0.03 [] = Inr [short_opened]"
    by (simp add: place_futures_order_usdc_record_def record_position_with_trailing_stop_def
        short_opened_def Let_def)
  have c: "find_position ''ETHUSDC'' SHORT [short_opened] = Some short_opened"
    by (simp add: find_position_def short_opened_def new_position_def)
  have e: "entry_price short_opened = 200" by (simp add: short_opened_def new_position_def)
  from short_stop_below_entry [OF a b, where close = close_succeeds] c e
  show ?thesis using b by (auto simp add: close_succeeds_def)
qed

end
